theory Spec2Isabelle
  imports Complex_Main "HOL-Library.Sublist" "HOL-Library.Char_ord" "HOL-Library.List_Lexorder"
begin

section \<open>Python values\<close>

text \<open>
  The program is dynamically typed: the attributes of a near-Earth object and the
  reference value of a filter hold whatever the caller passed. The values that reach
  the code under study are \<open>None\<close>, booleans, strings, floats, calendar dates and
  references to \<open>NearEarthObject\<close>s. Objects live in a store and are named by
  references, so that two names for one object stay one object.
\<close>

type_synonym ref = nat

text \<open>
  A float is a finite number, an infinity or not-a-number. Only comparisons are applied
  to floats here, so a finite float is represented by the real number it denotes.
\<close>

datatype pyfloat = Fin real | PosInf | NegInf | NaN

fun float_le :: "pyfloat \<Rightarrow> pyfloat \<Rightarrow> bool" where
  "float_le NaN _ = False"
| "float_le _ NaN = False"
| "float_le NegInf _ = True"
| "float_le _ PosInf = True"
| "float_le (Fin a) (Fin b) = (a \<le> b)"
| "float_le (Fin _) NegInf = False"
| "float_le PosInf _ = False"

definition float_eq :: "pyfloat \<Rightarrow> pyfloat \<Rightarrow> bool" where
  "float_eq a b = (a \<noteq> NaN \<and> a = b)"

text \<open>\<open>datetime.date\<close>, ordered by year, then month, then day.\<close>

datatype pydate = Date (year: nat) (month: nat) (day: nat)

definition date_le :: "pydate \<Rightarrow> pydate \<Rightarrow> bool" where
  "date_le d e =
     (year d < year e \<or> (year d = year e \<and>
       (month d < month e \<or> (month d = month e \<and> day d \<le> day e))))"

text \<open>\<open>datetime.datetime\<close> at minute precision; \<open>date_part\<close> is its \<open>.date()\<close>.\<close>

datatype datetime = Datetime (date_part: pydate) (hour: nat) (minute: nat)

datatype pyval =
    PNone
  | PBool bool
  | PStr string
  | PFloat pyfloat
  | PDate pydate
  | PNeo ref

datatype error =
    AttributeError string string
  | TypeError
  | ValueError
  | IndexError
  | UnsupportedCriterionError

text \<open>
  \<open>AttributeError t a\<close> is Python's "\<open>'t' object has no attribute 'a'\<close>";
  \<open>type_name\<close> is the name of the value's type as that message prints it.
\<close>

fun type_name :: "pyval \<Rightarrow> string" where
  "type_name PNone = ''NoneType''"
| "type_name (PBool _) = ''bool''"
| "type_name (PStr _) = ''str''"
| "type_name (PFloat _) = ''float''"
| "type_name (PDate _) = ''datetime.date''"
| "type_name (PNeo _) = ''NearEarthObject''"

text \<open>Truth value testing, as \<open>if v:\<close> performs it.\<close>

fun truthy :: "pyval \<Rightarrow> bool" where
  "truthy PNone = False"
| "truthy (PBool b) = b"
| "truthy (PStr s) = (s \<noteq> [])"
| "truthy (PFloat f) = (f \<noteq> Fin 0)"
| "truthy (PDate _) = True"
| "truthy (PNeo _) = True"

text \<open>Booleans are numbers in Python: \<open>True == 1.0\<close> and \<open>False <= 0.5\<close>.\<close>

fun num_of :: "pyval \<Rightarrow> pyfloat option" where
  "num_of (PBool b) = Some (Fin (if b then 1 else 0))"
| "num_of (PFloat f) = Some f"
| "num_of _ = None"

text \<open>
  \<open>a == b\<close>. It never raises: values of unrelated types are unequal, and an object
  without \<open>__eq__\<close> (a \<open>NearEarthObject\<close>) is equal to itself only.
\<close>

definition py_eq :: "pyval \<Rightarrow> pyval \<Rightarrow> bool" where
  "py_eq a b =
     (case (num_of a, num_of b) of
        (Some x, Some y) \<Rightarrow> float_eq x y
      | (None, None) \<Rightarrow> a = b
      | _ \<Rightarrow> False)"

text \<open>\<open>a <= b\<close>: defined between two numbers, two strings or two dates; a \<open>TypeError\<close> otherwise.\<close>

definition py_le :: "pyval \<Rightarrow> pyval \<Rightarrow> error + bool" where
  "py_le a b =
     (case (num_of a, num_of b) of
        (Some x, Some y) \<Rightarrow> Inr (float_le x y)
      | (None, None) \<Rightarrow>
          (case (a, b) of
             (PStr s, PStr t) \<Rightarrow> Inr (s \<le> t)
           | (PDate d, PDate e) \<Rightarrow> Inr (date_le d e)
           | _ \<Rightarrow> Inl TypeError)
      | _ \<Rightarrow> Inl TypeError)"

text \<open>The comparators of the \<open>operator\<close> module that \<open>create_filters\<close> uses.\<close>

datatype oper = operator_eq | operator_ge | operator_le

fun apply_op :: "oper \<Rightarrow> pyval \<Rightarrow> pyval \<Rightarrow> error + bool" where
  "apply_op operator_eq a b = Inr (py_eq a b)"
| "apply_op operator_ge a b = py_le b a"
| "apply_op operator_le a b = py_le a b"

text \<open>Keyword arguments (\<open>**info\<close>) are a dictionary; \<open>dict_get\<close> is \<open>info.get(key)\<close>.\<close>

type_synonym kwargs = "string \<rightharpoonup> pyval"

definition dict_get :: "kwargs \<Rightarrow> string \<Rightarrow> pyval" where
  "dict_get d k = (case d k of None \<Rightarrow> PNone | Some v \<Rightarrow> v)"

text \<open>
  What the program takes from outside its own files: \<open>float\<close> applied to a string,
  \<open>str\<close> applied to a value that is not \<open>None\<close>, a boolean or a string (the text
  depends on number and date formatting), and \<open>helpers.cd_to_datetime\<close>. They are
  parameters of the model: every theorem holds whatever they compute.
\<close>

record externals =
  float_of_str :: "string \<Rightarrow> error + pyfloat"
  str_of_other :: "pyval \<Rightarrow> string"
  cd_to_datetime :: "pyval \<Rightarrow> error + datetime"

fun py_float :: "externals \<Rightarrow> pyval \<Rightarrow> error + pyfloat" where
  "py_float X (PFloat f) = Inr f"
| "py_float X (PBool b) = Inr (Fin (if b then 1 else 0))"
| "py_float X (PStr s) = float_of_str X s"
| "py_float X PNone = Inl TypeError"
| "py_float X (PDate _) = Inl TypeError"
| "py_float X (PNeo _) = Inl TypeError"

fun py_str :: "externals \<Rightarrow> pyval \<Rightarrow> string" where
  "py_str X PNone = ''None''"
| "py_str X (PBool b) = (if b then ''True'' else ''False'')"
| "py_str X (PStr s) = s"
| "py_str X v = str_of_other X v"

section \<open>models.py\<close>

record NearEarthObject =
  designation :: string
  name :: pyval
  diameter :: pyfloat
  hazardous :: pyval
  approaches :: "ref list"

text \<open>
  \<open>NearEarthObject.__init__\<close>. Each attribute is set inside its own \<open>try\<close>;
  \<open>info.get\<close> and \<open>str\<close> do not raise, so only the \<open>float\<close> conversion can reach
  its \<open>except\<close> branch.
\<close>

definition NearEarthObject_init :: "externals \<Rightarrow> kwargs \<Rightarrow> NearEarthObject" where
  "NearEarthObject_init X info =
     \<lparr> designation = py_str X (dict_get info ''designation''),
       name = dict_get info ''name'',
       diameter = (case py_float X (dict_get info ''diameter'') of
                     Inr f \<Rightarrow> f
                   | Inl _ \<Rightarrow> NaN),
       hazardous = dict_get info ''hazardous'',
       approaches = [] \<rparr>"

text \<open>The \<open>fullname\<close> property: \<open>if self.name:\<close> tests the truth value of the name.\<close>

definition fullname :: "externals \<Rightarrow> NearEarthObject \<Rightarrow> string" where
  "fullname X n =
     (if truthy (name n) then designation n @ '' ('' @ py_str X (name n) @ '')''
      else designation n)"

record CloseApproach =
  ca_designation :: string
  time :: "datetime option"
  distance :: pyfloat
  velocity :: pyfloat
  neo :: pyval

text \<open>\<open>CloseApproach.__init__\<close>: a conversion that raises leaves the attribute's default.\<close>

definition CloseApproach_init :: "externals \<Rightarrow> kwargs \<Rightarrow> CloseApproach" where
  "CloseApproach_init X data =
     \<lparr> ca_designation = py_str X (dict_get data ''pdes''),
       time = (case cd_to_datetime X (dict_get data ''time'') of
                 Inr t \<Rightarrow> Some t
               | Inl _ \<Rightarrow> None),
       distance = (case py_float X (dict_get data ''distance'') of
                     Inr f \<Rightarrow> f
                   | Inl _ \<Rightarrow> Fin 0),
       velocity = (case py_float X (dict_get data ''velocity'') of
                     Inr f \<Rightarrow> f
                   | Inl _ \<Rightarrow> Fin 0),
       neo = dict_get data ''neos'' \<rparr>"

text \<open>The store: the object every reference denotes.\<close>

record store =
  neos_of :: "ref \<Rightarrow> NearEarthObject"
  cas_of :: "ref \<Rightarrow> CloseApproach"

section \<open>Generators\<close>

text \<open>
  A generator is consumed one element at a time. What a consumer sees is a run of yielded
  values that ends when the generator returns (\<open>next\<close> raises \<open>StopIteration\<close>) or when
  an exception leaves its body.
\<close>

datatype 'a gen = Stop | Yield 'a "'a gen" | Raise error

text \<open>\<open>iter\<close> of a list.\<close>

fun iter_list :: "'a list \<Rightarrow> 'a gen" where
  "iter_list [] = Stop"
| "iter_list (x # xs) = Yield x (iter_list xs)"

text \<open>The values a consumer that runs the generator to its end receives, and how it ended.\<close>

fun yielded :: "'a gen \<Rightarrow> 'a list" where
  "yielded Stop = []"
| "yielded (Yield x g) = x # yielded g"
| "yielded (Raise _) = []"

fun outcome :: "'a gen \<Rightarrow> error option" where
  "outcome Stop = None"
| "outcome (Yield _ g) = outcome g"
| "outcome (Raise e) = Some e"

section \<open>database.py\<close>

record NEODatabase =
  db_neos :: "ref list"
  db_approaches :: "ref list"

text \<open>
  The loop of \<open>NEODatabase.__init__\<close>: \<open>values.neo.approaches.append(values)\<close> for each
  close approach in turn. Reading \<open>.approaches\<close> of a value that is not a
  \<open>NearEarthObject\<close> raises \<open>AttributeError\<close>, which leaves the constructor.
\<close>

fun link_approaches :: "store \<Rightarrow> ref list \<Rightarrow> error + store" where
  "link_approaches s [] = Inr s"
| "link_approaches s (a # as) =
     (case neo (cas_of s a) of
        PNeo r \<Rightarrow>
          link_approaches
            (s\<lparr>neos_of := (neos_of s)
                 (r := (neos_of s r)\<lparr>approaches := approaches (neos_of s r) @ [a]\<rparr>)\<rparr>) as
      | v \<Rightarrow> Inl (AttributeError (type_name v) ''approaches''))"

definition NEODatabase_init :: "store \<Rightarrow> ref list \<Rightarrow> ref list \<Rightarrow> error + (store \<times> NEODatabase)" where
  "NEODatabase_init s neos approaches' =
     (case link_approaches s approaches' of
        Inl e \<Rightarrow> Inl e
      | Inr s' \<Rightarrow> Inr (s', \<lparr>db_neos = neos, db_approaches = approaches'\<rparr>))"

text \<open>The two lookups return the first match in the order of \<open>_neos\<close>, or \<open>None\<close>.\<close>

fun find_neo :: "(NearEarthObject \<Rightarrow> bool) \<Rightarrow> store \<Rightarrow> ref list \<Rightarrow> ref option" where
  "find_neo p s [] = None"
| "find_neo p s (r # rs) = (if p (neos_of s r) then Some r else find_neo p s rs)"

definition get_neo_by_designation :: "store \<Rightarrow> NEODatabase \<Rightarrow> pyval \<Rightarrow> ref option" where
  "get_neo_by_designation s db designation' =
     find_neo (\<lambda>n. py_eq (PStr (designation n)) designation') s (db_neos db)"

definition get_neo_by_name :: "store \<Rightarrow> NEODatabase \<Rightarrow> pyval \<Rightarrow> ref option" where
  "get_neo_by_name s db name' =
     find_neo (\<lambda>n. py_eq (name n) name') s (db_neos db)"

text \<open>
  A filter passed to \<open>query\<close> is any callable on a close approach; a call returns a
  boolean or raises. \<open>all_map fs a\<close> is \<open>all(map(lambda f: f(approach), filters))\<close>:
  it calls the filters in order and stops at the first that is false or raises.
\<close>

type_synonym callable = "ref \<Rightarrow> error + bool"

fun all_map :: "callable list \<Rightarrow> ref \<Rightarrow> error + bool" where
  "all_map [] a = Inr True"
| "all_map (f # fs) a =
     (case f a of
        Inl e \<Rightarrow> Inl e
      | Inr b \<Rightarrow> if b then all_map fs a else Inr False)"

fun query_filtered :: "callable list \<Rightarrow> ref list \<Rightarrow> ref gen" where
  "query_filtered fs [] = Stop"
| "query_filtered fs (a # as) =
     (case all_map fs a of
        Inl e \<Rightarrow> Raise e
      | Inr b \<Rightarrow> if b then Yield a (query_filtered fs as) else query_filtered fs as)"

definition query :: "NEODatabase \<Rightarrow> callable list \<Rightarrow> ref gen" where
  "query db filters =
     (if filters \<noteq> [] then query_filtered filters (db_approaches db)
      else iter_list (db_approaches db))"

section \<open>filters.py\<close>

datatype filter_class =
    AttributeFilter
  | DateFilter
  | DistanceFilter
  | VelocityFilter
  | DiameterFilter
  | HazardFilter

datatype filter = Filter (cls: filter_class) (fop: oper) (fvalue: pyval)

text \<open>
  The class method \<open>get\<close> of each filter class. \<open>approach.time.date()\<close> on a time that
  is \<open>None\<close>, and \<open>approach.neo.diameter\<close> or \<open>approach.neo.hazardous\<close> on a \<open>neo\<close> that
  is not a \<open>NearEarthObject\<close>, raise \<open>AttributeError\<close>.
\<close>

fun get :: "store \<Rightarrow> filter_class \<Rightarrow> ref \<Rightarrow> error + pyval" where
  "get s AttributeFilter a = Inl UnsupportedCriterionError"
| "get s DateFilter a =
     (case time (cas_of s a) of
        None \<Rightarrow> Inl (AttributeError ''NoneType'' ''date'')
      | Some t \<Rightarrow> Inr (PDate (date_part t)))"
| "get s DistanceFilter a = Inr (PFloat (distance (cas_of s a)))"
| "get s VelocityFilter a = Inr (PFloat (velocity (cas_of s a)))"
| "get s DiameterFilter a =
     (case neo (cas_of s a) of
        PNeo r \<Rightarrow> Inr (PFloat (diameter (neos_of s r)))
      | v \<Rightarrow> Inl (AttributeError (type_name v) ''diameter''))"
| "get s HazardFilter a =
     (case neo (cas_of s a) of
        PNeo r \<Rightarrow> Inr (hazardous (neos_of s r))
      | v \<Rightarrow> Inl (AttributeError (type_name v) ''hazardous''))"

text \<open>\<open>AttributeFilter.__call__\<close>: \<open>self.op(self.get(approach), self.value)\<close>.\<close>

definition call :: "store \<Rightarrow> filter \<Rightarrow> callable" where
  "call s f a =
     (case get s (cls f) a of
        Inl e \<Rightarrow> Inl e
      | Inr v \<Rightarrow> apply_op (fop f) v (fvalue f))"

text \<open>
  \<open>create_filters\<close>: each criterion is tested with \<open>if criterion:\<close>, that is by its truth
  value, and appends its filter when the test succeeds. An argument left out is \<open>None\<close>.
\<close>

definition create_filters ::
  "pyval \<Rightarrow> pyval \<Rightarrow> pyval \<Rightarrow> pyval \<Rightarrow> pyval \<Rightarrow> pyval \<Rightarrow> pyval \<Rightarrow> pyval \<Rightarrow> pyval \<Rightarrow> pyval \<Rightarrow> filter list" where
  "create_filters date start_date end_date distance_min distance_max
       velocity_min velocity_max diameter_min diameter_max hazardous' =
     (if truthy date then [Filter DateFilter operator_eq date] else []) @
     (if truthy start_date then [Filter DateFilter operator_ge start_date] else []) @
     (if truthy end_date then [Filter DateFilter operator_le end_date] else []) @
     (if truthy distance_min then [Filter DistanceFilter operator_ge distance_min] else []) @
     (if truthy distance_max then [Filter DistanceFilter operator_le distance_max] else []) @
     (if truthy velocity_min then [Filter VelocityFilter operator_ge velocity_min] else []) @
     (if truthy velocity_max then [Filter VelocityFilter operator_le velocity_max] else []) @
     (if truthy diameter_min then [Filter DiameterFilter operator_ge diameter_min] else []) @
     (if truthy diameter_max then [Filter DiameterFilter operator_le diameter_max] else []) @
     (if truthy hazardous' then [Filter HazardFilter operator_eq hazardous'] else [])"

text \<open>
  \<open>limit\<close>. With a truthy \<open>n\<close> the \<open>for\<close> loop runs over \<open>range(0, n)\<close>, which has
  \<open>nat n\<close> elements (none when \<open>n\<close> is negative); otherwise the \<open>while n != 1\<close> loop
  runs. In both, \<open>StopIteration\<close> from \<open>next\<close> ends the loop and any other exception
  leaves the generator.
\<close>

fun limit_for :: "nat \<Rightarrow> 'a gen \<Rightarrow> 'a gen" where
  "limit_for 0 g = Stop"
| "limit_for (Suc k) Stop = Stop"
| "limit_for (Suc k) (Raise e) = Raise e"
| "limit_for (Suc k) (Yield x g) = Yield x (limit_for k g)"

fun limit_while :: "int option \<Rightarrow> 'a gen \<Rightarrow> 'a gen" where
  "limit_while n Stop = Stop"
| "limit_while n (Raise e) = (if n \<noteq> Some 1 then Raise e else Stop)"
| "limit_while n (Yield x g) = (if n \<noteq> Some 1 then Yield x (limit_while n g) else Stop)"

definition limit :: "'a gen \<Rightarrow> int option \<Rightarrow> 'a gen" where
  "limit iterator n =
     (case n of
        None \<Rightarrow> limit_while n iterator
      | Some k \<Rightarrow> if k \<noteq> 0 then limit_for (nat k) iterator else limit_while n iterator)"

section \<open>extract.py\<close>

text \<open>
  The loaders create the objects. The program's state is the store, the number of
  objects of each class created so far (the next fresh reference) and the module's
  global \<open>pdes_dict\<close>, which maps a designation to the object created for it.
  Reading and parsing the files is outside the model: \<open>load_neos\<close> starts from the rows
  of \<open>csv.DictReader\<close> (column name to text, a missing column absent) and
  \<open>load_approaches\<close> from the rows of \<open>json_data['data']\<close>.
\<close>

record program =
  heap :: store
  neo_count :: nat
  ca_count :: nat
  pdes_dict :: "string \<rightharpoonup> ref"

definition create_neo :: "externals \<Rightarrow> pyval \<Rightarrow> pyval \<Rightarrow> pyval \<Rightarrow> pyval \<Rightarrow> NearEarthObject" where
  "create_neo X a b c d =
     NearEarthObject_init X
       [''designation'' \<mapsto> a, ''name'' \<mapsto> b, ''diameter'' \<mapsto> c, ''hazardous'' \<mapsto> d]"

definition create_ca ::
  "externals \<Rightarrow> pyval \<Rightarrow> pyval \<Rightarrow> pyval \<Rightarrow> pyval \<Rightarrow> pyval \<Rightarrow> CloseApproach" where
  "create_ca X a b c d e =
     CloseApproach_init X
       [''pdes'' \<mapsto> a, ''time'' \<mapsto> b, ''distance'' \<mapsto> c, ''velocity'' \<mapsto> d, ''neos'' \<mapsto> e]"

text \<open>
  The body of the loop of \<open>load_neos\<close>, for one row: \<open>if not name: name = None\<close> and
  its siblings replace a missing or empty text; \<open>float\<close> of a diameter that is not a
  number raises \<open>ValueError\<close>, which nothing catches.
\<close>

definition neo_of_row :: "externals \<Rightarrow> (string \<rightharpoonup> string) \<Rightarrow> error + (string \<times> NearEarthObject)" where
  "neo_of_row X elem =
     (let name' = (case elem ''name'' of
                     None \<Rightarrow> PNone
                   | Some t \<Rightarrow> if t = [] then PNone else PStr t);
          pdes = (case elem ''pdes'' of
                    None \<Rightarrow> ''nan''
                  | Some t \<Rightarrow> if t = [] then ''nan'' else t);
          ishaz = (elem ''pha'' = Some ''Y'')
      in case (case elem ''diameter'' of
                 None \<Rightarrow> Inr NaN
               | Some t \<Rightarrow> if t = [] then Inr NaN else float_of_str X t) of
           Inl e \<Rightarrow> Inl e
         | Inr dia \<Rightarrow> Inr (pdes, create_neo X (PStr pdes) name' (PFloat dia) (PBool ishaz)))"

fun load_neos_loop ::
  "externals \<Rightarrow> program \<Rightarrow> ref list \<Rightarrow> (string \<rightharpoonup> string) list \<Rightarrow> error + (ref list \<times> program)" where
  "load_neos_loop X p neos [] = Inr (neos, p)"
| "load_neos_loop X p neos (elem # rest) =
     (case neo_of_row X elem of
        Inl e \<Rightarrow> Inl e
      | Inr (pdes, modelsNEO) \<Rightarrow>
          load_neos_loop X
            (p\<lparr>heap := (heap p)\<lparr>neos_of := (neos_of (heap p))(neo_count p := modelsNEO)\<rparr>,
               neo_count := Suc (neo_count p),
               pdes_dict := (pdes_dict p)(pdes \<mapsto> neo_count p)\<rparr>)
            (neos @ [neo_count p]) rest)"

definition load_neos ::
  "externals \<Rightarrow> program \<Rightarrow> (string \<rightharpoonup> string) list \<Rightarrow> error + (ref list \<times> program)" where
  "load_neos X p rows = load_neos_loop X p [] rows"

text \<open>\<open>key[i]\<close> on a list: \<open>IndexError\<close> past its end.\<close>

definition py_index :: "'a list \<Rightarrow> nat \<Rightarrow> error + 'a" where
  "py_index xs i = (if i < length xs then Inr (xs ! i) else Inl IndexError)"

text \<open>\<open>pdes_dict.get(desig)\<close>: the keys are strings, so a designation of another type finds nothing.\<close>

definition pdes_dict_get :: "(string \<rightharpoonup> ref) \<Rightarrow> pyval \<Rightarrow> pyval" where
  "pdes_dict_get d desig =
     (case desig of
        PStr t \<Rightarrow> (case d t of None \<Rightarrow> PNone | Some r \<Rightarrow> PNeo r)
      | _ \<Rightarrow> PNone)"

definition ca_of_row :: "externals \<Rightarrow> (string \<rightharpoonup> ref) \<Rightarrow> pyval list \<Rightarrow> error + CloseApproach" where
  "ca_of_row X d key =
     (case py_index key 0 of
        Inl e \<Rightarrow> Inl e
      | Inr desig \<Rightarrow>
          (case py_index key 3 of
             Inl e \<Rightarrow> Inl e
           | Inr time' \<Rightarrow>
               (case py_index key 4 of
                  Inl e \<Rightarrow> Inl e
                | Inr dist' \<Rightarrow>
                    (case py_index key 7 of
                       Inl e \<Rightarrow> Inl e
                     | Inr velocity' \<Rightarrow>
                         Inr (create_ca X desig time' dist' velocity' (pdes_dict_get d desig))))))"

fun load_approaches_loop ::
  "externals \<Rightarrow> program \<Rightarrow> ref list \<Rightarrow> pyval list list \<Rightarrow> error + (ref list \<times> program)" where
  "load_approaches_loop X p ca_list [] = Inr (ca_list, p)"
| "load_approaches_loop X p ca_list (key # rest) =
     (case ca_of_row X (pdes_dict p) key of
        Inl e \<Rightarrow> Inl e
      | Inr modelsCA \<Rightarrow>
          load_approaches_loop X
            (p\<lparr>heap := (heap p)\<lparr>cas_of := (cas_of (heap p))(ca_count p := modelsCA)\<rparr>,
               ca_count := Suc (ca_count p)\<rparr>)
            (ca_list @ [ca_count p]) rest)"

definition load_approaches ::
  "externals \<Rightarrow> program \<Rightarrow> pyval list list \<Rightarrow> error + (ref list \<times> program)" where
  "load_approaches X p rows = load_approaches_loop X p [] rows"

text \<open>
  What the main module does with the three: load the objects, load the close approaches,
  build the database.
\<close>

definition load_database ::
  "externals \<Rightarrow> program \<Rightarrow> (string \<rightharpoonup> string) list \<Rightarrow> pyval list list \<Rightarrow> error + (store \<times> NEODatabase)" where
  "load_database X p neo_rows cad_rows =
     (case load_neos X p neo_rows of
        Inl e \<Rightarrow> Inl e
      | Inr (neos, p1) \<Rightarrow>
          (case load_approaches X p1 cad_rows of
             Inl e \<Rightarrow> Inl e
           | Inr (approaches', p2) \<Rightarrow> NEODatabase_init (heap p2) neos approaches'))"

section \<open>Sample data\<close>

text \<open>
  A small data set on which the definitions are evaluated: three objects, of which
  Apophis is potentially hazardous and the third is unnamed, and three close approaches
  at distances 0.05, 0.2 and 0.5 au. Every reference beyond the first two denotes the
  third object or close approach.
\<close>

definition sample_neos :: "ref \<Rightarrow> NearEarthObject" where
  "sample_neos =
     (\<lambda>_. \<lparr>designation = ''2020 AB'', name = PNone, diameter = NaN,
            hazardous = PBool False, approaches = []\<rparr>)
     (0 := \<lparr>designation = ''433'', name = PStr ''Eros'', diameter = Fin 16.84,
             hazardous = PBool False, approaches = [0, 2]\<rparr>,
      1 := \<lparr>designation = ''99942'', name = PStr ''Apophis'', diameter = Fin 0.34,
             hazardous = PBool True, approaches = [1]\<rparr>)"

definition sample_cas :: "ref \<Rightarrow> CloseApproach" where
  "sample_cas =
     (\<lambda>_. \<lparr>ca_designation = ''433'', time = Some (Datetime (Date 2056 1 24) 11 2),
            distance = Fin 0.5, velocity = Fin 6, neo = PNeo 0\<rparr>)
     (0 := \<lparr>ca_designation = ''433'', time = Some (Datetime (Date 2020 1 1) 12 30),
             distance = Fin 0.05, velocity = Fin 5, neo = PNeo 0\<rparr>,
      1 := \<lparr>ca_designation = ''99942'', time = Some (Datetime (Date 2029 4 13) 21 46),
             distance = Fin 0.2, velocity = Fin 7.4, neo = PNeo 1\<rparr>)"

definition sample_store :: store where
  "sample_store = \<lparr>neos_of = sample_neos, cas_of = sample_cas\<rparr>"

definition sample_db :: NEODatabase where
  "sample_db = \<lparr>db_neos = [0, 1, 2], db_approaches = [0, 1, 2]\<rparr>"

text \<open>The same objects before linking: no object lists a close approach yet.\<close>

definition unlinked_store :: store where
  "unlinked_store = \<lparr>neos_of = (\<lambda>r. (sample_neos r)\<lparr>approaches := []\<rparr>), cas_of = sample_cas\<rparr>"

text \<open>
  An instance of the external functions: \<open>float\<close> reads the two numerals of the sample
  file, \<open>cd_to_datetime\<close> its one well-formed timestamp, and both raise \<open>ValueError\<close>
  on any other text.
\<close>

definition sample_externals :: externals where
  "sample_externals =
     \<lparr>float_of_str = (\<lambda>t. if t = ''0.2'' then Inr (Fin 0.2)
                           else if t = ''7.4'' then Inr (Fin 7.4)
                           else Inl ValueError),
      str_of_other = (\<lambda>_. ''<object>''),
      cd_to_datetime = (\<lambda>v. if v = PStr ''2029-Apr-13 21:46''
                             then Inr (Datetime (Date 2029 4 13) 21 46)
                             else Inl ValueError)\<rparr>"

text \<open>The sample in which the timestamp of the first close approach could not be read.\<close>

definition untimed_store :: store where
  "untimed_store =
     sample_store\<lparr>cas_of := sample_cas
       (0 := create_ca sample_externals (PStr ''433'') (PStr ''unknown'')
               (PFloat (Fin 0.05)) (PFloat (Fin 5)) (PNeo 0))\<rparr>"

text \<open>The sample in which the second close approach belongs to no known object.\<close>

definition unmatched_store :: store where
  "unmatched_store = sample_store\<lparr>cas_of := sample_cas(1 := (sample_cas 1)\<lparr>neo := PNone\<rparr>)\<rparr>"

text \<open>
  Input files in which the only close approach names an object (99942) that the object
  file (433 only) does not hold, and the state of a program that has loaded nothing.
\<close>

definition sample_neo_rows :: "(string \<rightharpoonup> string) list" where
  "sample_neo_rows =
     [[''pdes'' \<mapsto> ''433'', ''name'' \<mapsto> ''Eros'', ''diameter'' \<mapsto> '''', ''pha'' \<mapsto> ''N'']]"

definition sample_cad_rows :: "pyval list list" where
  "sample_cad_rows =
     [[PStr ''99942'', PNone, PNone, PStr ''2029-Apr-13 21:46'', PStr ''0.2'',
       PNone, PNone, PStr ''7.4'']]"

definition initial_program :: program where
  "initial_program =
     \<lparr>heap = \<lparr>neos_of = (\<lambda>_. sample_neos 2), cas_of = (\<lambda>_. sample_cas 2)\<rparr>,
      neo_count = 0, ca_count = 0, pdes_dict = Map.empty\<rparr>"

text \<open>Two filters for the sample: at most 0.2 au away, and on 13 April 2029.\<close>

definition near_filter :: filter where
  "near_filter = Filter DistanceFilter operator_le (PFloat (Fin 0.2))"

definition day_filter :: filter where
  "day_filter = Filter DateFilter operator_eq (PDate (Date 2029 4 13))"

definition safe_filter :: filter where
  "safe_filter = Filter HazardFilter operator_eq (PBool False)"

definition wide_filter :: filter where
  "wide_filter = Filter DiameterFilter operator_ge (PFloat (Fin 1))"

text \<open>An object file whose only row has an empty name column.\<close>

definition unnamed_neo_rows :: "(string \<rightharpoonup> string) list" where
  "unnamed_neo_rows = [[''pdes'' \<mapsto> ''2020 AB'', ''name'' \<mapsto> '''']]"

section \<open>Facts about generators and the query loop\<close>

lemma yielded_iter_list: "yielded (iter_list xs) = xs"
  by (induction xs) simp_all

lemma outcome_iter_list: "outcome (iter_list xs) = None"
  by (induction xs) simp_all

lemma limit_for_iter_list: "limit_for k (iter_list xs) = iter_list (take k xs)"
proof (induction k arbitrary: xs)
  case 0
  show ?case by simp
next
  case (Suc k)
  show ?case by (cases xs) (simp_all add: Suc.IH)
qed

lemma limit_while_iter_list: "n \<noteq> Some 1 \<Longrightarrow> limit_while n (iter_list xs) = iter_list xs"
  by (induction xs) simp_all

lemma all_map_True_iff: "all_map fs a = Inr True \<longleftrightarrow> (\<forall>f\<in>set fs. f a = Inr True)"
  by (induction fs) (auto split: sum.splits)

lemma all_map_call_True_iff:
  "all_map (map (call s) fs) a = Inr True \<longleftrightarrow> (\<forall>f\<in>set fs. call s f a = Inr True)"
  by (induction fs) (auto split: sum.splits)

lemma all_map_raise:
  "(\<forall>f\<in>set fs1. f a = Inr True) \<Longrightarrow> f a = Inl e \<Longrightarrow> all_map (fs1 @ f # fs2) a = Inl e"
  by (induction fs1) simp_all

lemma query_filtered_subseq: "subseq (yielded (query_filtered fs as)) as"
  by (induction as) (auto split: sum.splits)

lemma query_filtered_total:
  "(\<forall>a\<in>set as. \<forall>e. all_map fs a \<noteq> Inl e) \<Longrightarrow>
   query_filtered fs as = iter_list (filter (\<lambda>a. all_map fs a = Inr True) as)"
  by (induction as) (auto split: sum.splits)

lemma query_filtered_raise:
  "(\<forall>b\<in>set pre. \<forall>e'. all_map fs b \<noteq> Inl e') \<Longrightarrow> all_map fs a = Inl e \<Longrightarrow>
   yielded (query_filtered fs (pre @ a # post)) = filter (\<lambda>b. all_map fs b = Inr True) pre
   \<and> outcome (query_filtered fs (pre @ a # post)) = Some e"
  by (induction pre) (auto split: sum.splits)

lemma sample_simps:
  "neos_of sample_store = sample_neos" "cas_of sample_store = sample_cas"
  "db_neos sample_db = [0, 1, 2]" "db_approaches sample_db = [0, 1, 2]"
  by (simp_all add: sample_store_def sample_db_def)

section \<open>The stream-limiting helper\<close>

text \<open>
  C5. For every finite input sequence \<open>xs\<close>: with a positive maximum \<open>n\<close>, \<open>limit\<close> yields
  exactly the first \<open>min n (length xs)\<close> elements and then stops; with \<open>n = 0\<close> or with
  \<open>n\<close> absent (\<open>None\<close>) it yields the whole sequence unchanged.
\<close>

theorem limit_first_n:
  "(0 < n \<longrightarrow> limit (iter_list xs) (Some n) = iter_list (take (min (nat n) (length xs)) xs))
   \<and> limit (iter_list xs) (Some 0) = iter_list xs
   \<and> limit (iter_list xs) None = iter_list xs"
  by (simp add: limit_def limit_for_iter_list limit_while_iter_list min_def)

theorem limit_first_n_witness:
  "limit (iter_list [10, 20, 30, 40, 50 :: nat]) (Some 3) = iter_list [10, 20, 30]
   \<and> limit (iter_list [10, 20, 30, 40, 50 :: nat]) (Some 0) = iter_list [10, 20, 30, 40, 50]
   \<and> limit (iter_list [10, 20, 30, 40, 50 :: nat]) None = iter_list [10, 20, 30, 40, 50]"
  using limit_first_n [of 3 "[10, 20, 30, 40, 50 :: nat]"] by simp

section \<open>Querying\<close>

text \<open>
  C4, as amended. With an empty filter list \<open>query\<close> yields every stored close approach, in
  storage order. The close approaches \<open>query\<close> yields are always a subsequence of those the
  unfiltered query yields. When evaluating the filters in order, stopping at the first
  false one, raises on no stored close approach, \<open>query\<close> yields exactly the close
  approaches on which every filter of the list evaluates true, in storage order, each as
  often as it is stored, and then stops.
\<close>

theorem query_conjunction:
  "query db [] = iter_list (db_approaches db)
   \<and> subseq (yielded (query db fs)) (yielded (query db []))
   \<and> ((\<forall>a\<in>set (db_approaches db). \<forall>e. all_map fs a \<noteq> Inl e) \<longrightarrow>
        query db fs = iter_list (filter (\<lambda>a. \<forall>f\<in>set fs. f a = Inr True) (db_approaches db)))"
proof (intro conjI impI)
  show "query db [] = iter_list (db_approaches db)"
    by (simp add: query_def)
  show "subseq (yielded (query db fs)) (yielded (query db []))"
    by (simp add: query_def yielded_iter_list query_filtered_subseq)
  assume ok: "\<forall>a\<in>set (db_approaches db). \<forall>e. all_map fs a \<noteq> Inl e"
  show "query db fs = iter_list (filter (\<lambda>a. \<forall>f\<in>set fs. f a = Inr True) (db_approaches db))"
  proof (cases "fs = []")
    case True
    then show ?thesis by (simp add: query_def)
  next
    case False
    then show ?thesis
      using query_filtered_total [OF ok] by (simp add: query_def all_map_True_iff)
  qed
qed

lemma call_near_sample:
  "call sample_store near_filter a = Inr (float_le (distance (sample_cas a)) (Fin 0.2))"
  by (simp add: call_def near_filter_def sample_simps py_le_def)

theorem query_conjunction_witness:
  "query sample_db [] = iter_list [0, 1, 2]
   \<and> subseq (yielded (query sample_db [call sample_store near_filter])) [0, 1, 2]
   \<and> query sample_db [call sample_store near_filter] = iter_list [0, 1]"
proof -
  have ok: "\<forall>a\<in>set (db_approaches sample_db). \<forall>e. all_map [call sample_store near_filter] a \<noteq> Inl e"
    by (simp add: sample_simps call_near_sample)
  have sel: "filter (\<lambda>a. \<forall>f\<in>set [call sample_store near_filter]. f a = Inr True)
               (db_approaches sample_db) = [0, 1]"
    by (simp add: sample_simps call_near_sample sample_cas_def)
  have all: "yielded (query sample_db []) = [0, 1, 2]"
    by (simp add: query_def sample_simps)
  show ?thesis
    using query_conjunction [of sample_db "[call sample_store near_filter]"] ok sel all
    by (simp add: sample_simps)
qed

lemma call_day_untimed:
  "call untimed_store day_filter 0 = Inl (AttributeError ''NoneType'' ''date'')"
  "call untimed_store day_filter (Suc 0) = Inr True"
  "call untimed_store day_filter 2 = Inr False"
  by (simp_all add: call_def day_filter_def untimed_store_def sample_store_def sample_cas_def
      create_ca_def CloseApproach_init_def dict_get_def sample_externals_def py_eq_def)

theorem query_conjunction_counterexample:
  "db_approaches sample_db = [0, 1, 2]
   \<and> call untimed_store day_filter 1 = Inr True
   \<and> query sample_db [call untimed_store day_filter] = Raise (AttributeError ''NoneType'' ''date'')
   \<and> yielded (query sample_db [call untimed_store day_filter])
       \<noteq> filter (\<lambda>a. \<forall>f\<in>set [call untimed_store day_filter]. f a = Inr True)
            (db_approaches sample_db)"
  by (simp add: query_def sample_simps call_day_untimed)

lemma call_unlinked:
  "neo (cas_of s a) = PNone \<Longrightarrow>
   call s (Filter DiameterFilter op v) a = Inl (AttributeError ''NoneType'' ''diameter'')
   \<and> call s (Filter HazardFilter op v) a = Inl (AttributeError ''NoneType'' ''hazardous'')"
  by (simp add: call_def)

text \<open>
  C7. On a close approach whose \<open>neo\<close> is \<open>None\<close>, calling a diameter or a hazard filter
  raises \<open>AttributeError\<close> for \<open>NoneType\<close> and the attribute the filter reads; it returns
  neither true nor false. When \<open>query\<close> reaches that close approach (no earlier stored
  close approach raised) and the filters before this one in the list are true on it, the
  generator has yielded the matching close approaches stored before it and then ends in
  that same error: the close approach is neither yielded nor skipped.
\<close>

theorem missing_neo_raises:
  assumes unlinked: "neo (cas_of s a) = PNone"
    and kind: "(c, attr) = (DiameterFilter, ''diameter'') \<or> (c, attr) = (HazardFilter, ''hazardous'')"
  shows "call s (Filter c op v) a = Inl (AttributeError ''NoneType'' attr)
     \<and> (db_approaches db = pre @ a # post
          \<and> (\<forall>b\<in>set pre. \<forall>e. all_map (map (call s) (fs1 @ Filter c op v # fs2)) b \<noteq> Inl e)
          \<and> (\<forall>f\<in>set fs1. call s f a = Inr True) \<longrightarrow>
        yielded (query db (map (call s) (fs1 @ Filter c op v # fs2)))
           = filter (\<lambda>b. \<forall>f\<in>set (fs1 @ Filter c op v # fs2). call s f b = Inr True) pre
        \<and> outcome (query db (map (call s) (fs1 @ Filter c op v # fs2)))
           = Some (AttributeError ''NoneType'' attr))"
proof (intro conjI impI)
  show raises: "call s (Filter c op v) a = Inl (AttributeError ''NoneType'' attr)"
    using unlinked kind call_unlinked [of s a] by auto
  let ?fs = "map (call s) (fs1 @ Filter c op v # fs2)"
  assume run: "db_approaches db = pre @ a # post
          \<and> (\<forall>b\<in>set pre. \<forall>e. all_map ?fs b \<noteq> Inl e)
          \<and> (\<forall>f\<in>set fs1. call s f a = Inr True)"
  then have db: "db_approaches db = pre @ a # post"
    and pre: "\<forall>b\<in>set pre. \<forall>e. all_map ?fs b \<noteq> Inl e"
    and pass: "\<forall>f\<in>set fs1. call s f a = Inr True"
    by simp_all
  have "all_map (map (call s) fs1 @ call s (Filter c op v) # map (call s) fs2) a
          = Inl (AttributeError ''NoneType'' attr)"
    using pass raises by (intro all_map_raise) simp_all
  then have fails: "all_map ?fs a = Inl (AttributeError ''NoneType'' attr)"
    by simp
  have q: "query db ?fs = query_filtered ?fs (pre @ a # post)"
    by (simp add: query_def db)
  have sel: "(\<forall>f\<in>set (fs1 @ Filter c op v # fs2). call s f b = Inr True)
               = (all_map ?fs b = Inr True)" for b
    by (rule all_map_call_True_iff [symmetric])
  have both: "yielded (query db ?fs)
           = filter (\<lambda>b. \<forall>f\<in>set (fs1 @ Filter c op v # fs2). call s f b = Inr True) pre
         \<and> outcome (query db ?fs) = Some (AttributeError ''NoneType'' attr)"
    unfolding q sel by (rule query_filtered_raise [OF pre fails])
  from both show "yielded (query db ?fs)
           = filter (\<lambda>b. \<forall>f\<in>set (fs1 @ Filter c op v # fs2). call s f b = Inr True) pre"
    by (rule conjunct1)
  from both show "outcome (query db ?fs) = Some (AttributeError ''NoneType'' attr)"
    by (rule conjunct2)
qed

lemma unmatched_simps:
  "neo (cas_of unmatched_store 1) = PNone"
  "cas_of unmatched_store 0 = sample_cas 0"
  "neos_of unmatched_store = sample_neos"
  by (simp_all add: unmatched_store_def sample_store_def)

lemma sample_db_split: "db_approaches sample_db = [0] @ 1 # [2]"
  by (simp add: sample_db_def)

lemma call_unmatched_first:
  "call unmatched_store near_filter 0 = Inr True"
  "call unmatched_store safe_filter 0 = Inr True"
  "call unmatched_store near_filter 1 = Inr True"
  by (simp_all add: call_def near_filter_def safe_filter_def unmatched_store_def sample_store_def
      sample_cas_def sample_neos_def py_le_def py_eq_def float_eq_def)

theorem missing_neo_raises_witness:
  "call unmatched_store safe_filter 1 = Inl (AttributeError ''NoneType'' ''hazardous'')
   \<and> call unmatched_store wide_filter 1 = Inl (AttributeError ''NoneType'' ''diameter'')
   \<and> yielded (query sample_db (map (call unmatched_store) [near_filter, safe_filter])) = [0]
   \<and> outcome (query sample_db (map (call unmatched_store) [near_filter, safe_filter]))
        = Some (AttributeError ''NoneType'' ''hazardous'')"
proof -
  have kind: "(HazardFilter, ''hazardous'') = (DiameterFilter, ''diameter'')
      \<or> (HazardFilter, ''hazardous'') = (HazardFilter, ''hazardous'')"
    by simp
  have kind': "(DiameterFilter, ''diameter'') = (DiameterFilter, ''diameter'')
      \<or> (DiameterFilter, ''diameter'') = (HazardFilter, ''hazardous'')"
    by simp
  note haz = missing_neo_raises [OF unmatched_simps(1) kind, of operator_eq "PBool False"
      sample_db "[0]" "[2]" "[near_filter]" "[]"]
  note dia = missing_neo_raises [OF unmatched_simps(1) kind', of operator_ge "PFloat (Fin 1)"
      sample_db "[]" "[]" "[]" "[]"]
  have pre: "\<forall>b\<in>set [0]. \<forall>e. all_map (map (call unmatched_store)
         ([near_filter] @ Filter HazardFilter operator_eq (PBool False) # [])) b \<noteq> Inl e"
    using call_unmatched_first by (simp add: safe_filter_def)
  have pass: "\<forall>f\<in>set [near_filter]. call unmatched_store f 1 = Inr True"
    using call_unmatched_first by simp
  have sel: "filter (\<lambda>b. \<forall>f\<in>set ([near_filter] @ Filter HazardFilter operator_eq (PBool False) # []).
               call unmatched_store f b = Inr True) [0] = [0]"
    using call_unmatched_first by (simp add: safe_filter_def)
  from haz sample_db_split pre pass sel dia show ?thesis
    by (simp add: safe_filter_def wide_filter_def)
qed

section \<open>Linking\<close>

lemma link_approaches_effect:
  "link_approaches s cas = Inr s' \<Longrightarrow>
   cas_of s' = cas_of s
   \<and> (\<forall>r. approaches (neos_of s' r)
           = approaches (neos_of s r) @ filter (\<lambda>a. neo (cas_of s a) = PNeo r) cas)"
proof (induction cas arbitrary: s)
  case Nil
  then show ?case by simp
next
  case (Cons a cas)
  from Cons.prems obtain r0 where r0: "neo (cas_of s a) = PNeo r0"
    by (cases "neo (cas_of s a)") simp_all
  let ?s1 = "s\<lparr>neos_of := (neos_of s)
                 (r0 := (neos_of s r0)\<lparr>approaches := approaches (neos_of s r0) @ [a]\<rparr>)\<rparr>"
  from Cons.prems r0 have "link_approaches ?s1 cas = Inr s'"
    by simp
  from Cons.IH [OF this] show ?case
    using r0 by auto
qed

text \<open>
  C6. Let the constructor succeed on a store in which the object \<open>r\<close> lists no close
  approach yet, as its precondition asks. Then in the linked store the \<open>approaches\<close> of
  \<open>r\<close> are exactly the close approaches of the database whose \<open>neo\<close> is \<open>r\<close>, in the
  order of the database (the order in which they were linked); so a close approach of the
  database refers to \<open>r\<close> if and only if it is a member of the \<open>approaches\<close> of \<open>r\<close>.
\<close>

theorem linking_bijective:
  assumes "NEODatabase_init s neos cas = Inr (s', db)"
    and "approaches (neos_of s r) = []"
  shows "db_approaches db = cas
     \<and> approaches (neos_of s' r) = filter (\<lambda>a. neo (cas_of s' a) = PNeo r) (db_approaches db)
     \<and> (\<forall>a\<in>set (db_approaches db).
           neo (cas_of s' a) = PNeo r \<longleftrightarrow> a \<in> set (approaches (neos_of s' r)))"
proof -
  from assms(1) have link: "link_approaches s cas = Inr s'" and db: "db_approaches db = cas"
    by (auto simp: NEODatabase_init_def split: sum.splits)
  from link_approaches_effect [OF link] assms(2)
  have "approaches (neos_of s' r) = filter (\<lambda>a. neo (cas_of s' a) = PNeo r) cas"
    by simp
  then show ?thesis
    using db by simp
qed

lemma sample_linking:
  "NEODatabase_init unlinked_store [0, 1, 2] [0, 1, 2] = Inr (sample_store, sample_db)"
  by (auto simp: NEODatabase_init_def unlinked_store_def sample_store_def sample_db_def
      sample_cas_def sample_neos_def fun_eq_iff)

theorem linking_bijective_witness:
  "NEODatabase_init unlinked_store [0, 1, 2] [0, 1, 2] = Inr (sample_store, sample_db)
   \<and> approaches (neos_of unlinked_store 0) = []
   \<and> approaches (neos_of sample_store 0) = [0, 2]
   \<and> (neo (cas_of sample_store 2) = PNeo 0) = (2 \<in> set (approaches (neos_of sample_store 0)))
   \<and> (neo (cas_of sample_store 1) = PNeo 0) = (1 \<in> set (approaches (neos_of sample_store 0)))"
proof -
  have empty: "approaches (neos_of unlinked_store 0) = []"
    by (simp add: unlinked_store_def)
  have sel: "filter (\<lambda>a. neo (cas_of sample_store a) = PNeo 0) (db_approaches sample_db) = [0, 2]"
    by (simp add: sample_store_def sample_db_def sample_cas_def)
  note linked = linking_bijective [OF sample_linking empty]
  from linked have lst: "approaches (neos_of sample_store 0) = [0, 2]"
    unfolding sel by (rule conjunct1 [OF conjunct2])
  from linked have mem: "\<forall>a\<in>set (db_approaches sample_db).
      (neo (cas_of sample_store a) = PNeo 0) = (a \<in> set (approaches (neos_of sample_store 0)))"
    by (rule conjunct2 [OF conjunct2])
  have "2 \<in> set (db_approaches sample_db)" and "1 \<in> set (db_approaches sample_db)"
    by (simp_all add: sample_db_def)
  with mem
  have "(neo (cas_of sample_store 2) = PNeo 0) = (2 \<in> set (approaches (neos_of sample_store 0)))"
    and "(neo (cas_of sample_store 1) = PNeo 0) = (1 \<in> set (approaches (neos_of sample_store 0)))"
    by blast+
  with sample_linking empty lst show ?thesis
    by (intro conjI)
qed

text \<open>
  C2. What the constructor does on a close approach whose designation matches no object.
  The loader leaves the \<open>neo\<close> of such a close approach \<open>None\<close>, and the constructor's
  loop reads \<open>.approaches\<close> of it: construction ends in \<open>AttributeError\<close> instead of
  completing. The first input is the two sample files; the second is the unlinked sample
  in which the second close approach has no object.
\<close>

theorem unmatched_approach_fails_construction:
  "load_database sample_externals initial_program sample_neo_rows sample_cad_rows
     = Inl (AttributeError ''NoneType'' ''approaches'')
   \<and> NEODatabase_init (unlinked_store\<lparr>cas_of := cas_of unmatched_store\<rparr>) [0, 1, 2] [0, 1, 2]
     = Inl (AttributeError ''NoneType'' ''approaches'')"
  by (simp add: load_database_def load_neos_def load_approaches_def neo_of_row_def ca_of_row_def
      sample_neo_rows_def sample_cad_rows_def initial_program_def create_neo_def create_ca_def
      NearEarthObject_init_def CloseApproach_init_def dict_get_def py_index_def pdes_dict_get_def
      sample_externals_def NEODatabase_init_def Let_def unmatched_store_def sample_store_def
      sample_cas_def unlinked_store_def)

section \<open>Lookup by name\<close>

lemma unnamed_load:
  "load_neos sample_externals initial_program unnamed_neo_rows =
     Inr ([0], initial_program\<lparr>heap := (heap initial_program)\<lparr>neos_of := (neos_of (heap initial_program))
            (0 := \<lparr>designation = ''2020 AB'', name = PNone, diameter = NaN,
                   hazardous = PBool False, approaches = []\<rparr>)\<rparr>,
          neo_count := Suc 0, pdes_dict := [''2020 AB'' \<mapsto> 0]\<rparr>)"
  by (simp add: load_neos_def unnamed_neo_rows_def neo_of_row_def Let_def create_neo_def
      NearEarthObject_init_def dict_get_def initial_program_def)

text \<open>
  C3. What \<open>get_neo_by_name\<close> returns for \<open>None\<close> and for the empty string. An object
  whose name is \<open>None\<close> compares equal to the query \<open>None\<close> and is returned: in the
  sample, and in the database loaded from a file whose row has an empty name. An object
  constructed with the empty string as name is returned for the query \<open>""\<close>.
\<close>

theorem get_neo_by_name_matches_absent_name:
  "get_neo_by_name sample_store sample_db PNone = Some 2
   \<and> name (neos_of sample_store 2) = PNone
   \<and> get_neo_by_name
        (sample_store\<lparr>neos_of := sample_neos
           (2 := NearEarthObject_init X [''designation'' \<mapsto> PStr ''2020 AB'', ''name'' \<mapsto> PStr ''''])\<rparr>)
        sample_db (PStr '''') = Some 2
   \<and> (case load_neos sample_externals initial_program unnamed_neo_rows of
         Inl e \<Rightarrow> None
       | Inr (neos, p) \<Rightarrow> get_neo_by_name (heap p) \<lparr>db_neos = neos, db_approaches = []\<rparr> PNone)
      = Some 0"
  by (simp add: get_neo_by_name_def sample_simps sample_store_def sample_neos_def py_eq_def
      NearEarthObject_init_def dict_get_def unnamed_load)

section \<open>Creating filters\<close>

text \<open>
  C1. What \<open>create_filters\<close> returns for \<open>hazardous=False\<close> with every other criterion
  left out: the empty list, since \<open>False\<close> fails the test \<open>if hazardous:\<close>. Querying the
  sample with it yields all three close approaches, that of the hazardous object
  included, where the hazard filter with value \<open>False\<close> yields the other two.
\<close>

theorem create_filters_drops_False:
  "create_filters PNone PNone PNone PNone PNone PNone PNone PNone PNone (PBool False) = []
   \<and> query sample_db (map (call sample_store)
        (create_filters PNone PNone PNone PNone PNone PNone PNone PNone PNone (PBool False)))
      = iter_list [0, 1, 2]
   \<and> neo (cas_of sample_store 1) = PNeo 1
   \<and> hazardous (neos_of sample_store 1) = PBool True
   \<and> query sample_db [call sample_store safe_filter] = iter_list [0, 2]"
  by (simp add: create_filters_def query_def sample_simps sample_cas_def sample_neos_def
      call_def safe_filter_def py_eq_def float_eq_def)

section \<open>Constructing objects\<close>

text \<open>
  C8. What the constructor stores when the input has no \<open>hazardous\<close> entry:
  \<open>info.get\<close> returns \<open>None\<close> without raising, so the attribute is \<open>None\<close>, which is
  not equal to \<open>False\<close>.
\<close>

theorem hazardous_absent_is_None:
  "hazardous (NearEarthObject_init X (info(''hazardous'' := None))) = PNone
   \<and> py_eq (hazardous (NearEarthObject_init X (info(''hazardous'' := None)))) (PBool False) = False"
  by (simp add: NearEarthObject_init_def dict_get_def py_eq_def)

lemma neo_of_row_name:
  "neo_of_row X elem = Inr (pdes, n) \<Longrightarrow> name n \<noteq> PStr ''''"
  by (auto simp: neo_of_row_def Let_def create_neo_def NearEarthObject_init_def dict_get_def
      split: sum.splits option.splits if_splits)

lemma load_neos_loop_names:
  "load_neos_loop X p acc rows = Inr (neos, p') \<Longrightarrow>
   (\<forall>r\<in>set acc. r < neo_count p \<and> name (neos_of (heap p) r) \<noteq> PStr '''') \<Longrightarrow>
   (\<forall>r\<in>set neos. r < neo_count p' \<and> name (neos_of (heap p') r) \<noteq> PStr '''')"
proof (induction rows arbitrary: p acc)
  case Nil
  then show ?case by simp
next
  case (Cons elem rows)
  from Cons.prems(1) obtain pdes n where row: "neo_of_row X elem = Inr (pdes, n)"
    by (cases "neo_of_row X elem") auto
  let ?p1 = "p\<lparr>heap := (heap p)\<lparr>neos_of := (neos_of (heap p))(neo_count p := n)\<rparr>,
               neo_count := Suc (neo_count p),
               pdes_dict := (pdes_dict p)(pdes \<mapsto> neo_count p)\<rparr>"
  from Cons.prems(1) row
  have loop: "load_neos_loop X ?p1 (acc @ [neo_count p]) rows = Inr (neos, p')"
    by simp
  have "\<forall>r\<in>set (acc @ [neo_count p]). r < neo_count ?p1 \<and> name (neos_of (heap ?p1) r) \<noteq> PStr ''''"
    using Cons.prems(2) neo_of_row_name [OF row] by auto
  from Cons.IH [OF loop this] show ?case .
qed

lemma neo_of_row_name_exact:
  "neo_of_row X elem = Inr (pdes, n) \<Longrightarrow>
   name n = (case elem ''name'' of None \<Rightarrow> PNone | Some t \<Rightarrow> if t = [] then PNone else PStr t)"
  by (auto simp: neo_of_row_def Let_def create_neo_def NearEarthObject_init_def dict_get_def
      split: sum.splits option.splits if_splits)

lemma load_neos_loop_exact:
  "load_neos_loop X p acc rows = Inr (neos, p') \<Longrightarrow>
   \<exists>new. neos = acc @ new
     \<and> new = [neo_count p ..< neo_count p + length rows]
     \<and> neo_count p' = neo_count p + length rows
     \<and> (\<forall>r < neo_count p. neos_of (heap p') r = neos_of (heap p) r)
     \<and> map (\<lambda>r. name (neos_of (heap p') r)) new
         = map (\<lambda>elem. case elem ''name'' of
                         None \<Rightarrow> PNone
                       | Some t \<Rightarrow> if t = [] then PNone else PStr t) rows"
proof (induction rows arbitrary: p acc)
  case Nil
  then show ?case by simp
next
  case (Cons elem rows)
  from Cons.prems obtain pdes n where row: "neo_of_row X elem = Inr (pdes, n)"
    by (cases "neo_of_row X elem") auto
  let ?p1 = "p\<lparr>heap := (heap p)\<lparr>neos_of := (neos_of (heap p))(neo_count p := n)\<rparr>,
               neo_count := Suc (neo_count p),
               pdes_dict := (pdes_dict p)(pdes \<mapsto> neo_count p)\<rparr>"
  from Cons.prems row
  have loop: "load_neos_loop X ?p1 (acc @ [neo_count p]) rows = Inr (neos, p')"
    by simp
  from Cons.IH [OF loop] obtain new where
    neos: "neos = (acc @ [neo_count p]) @ new"
    and new: "new = [Suc (neo_count p) ..< Suc (neo_count p) + length rows]"
    and count: "neo_count p' = Suc (neo_count p) + length rows"
    and frame: "\<forall>r < Suc (neo_count p). neos_of (heap p') r = neos_of (heap ?p1) r"
    and names: "map (\<lambda>r. name (neos_of (heap p') r)) new
         = map (\<lambda>elem. case elem ''name'' of
                         None \<Rightarrow> PNone
                       | Some t \<Rightarrow> if t = [] then PNone else PStr t) rows"
    by auto
  from frame have here: "neos_of (heap p') (neo_count p) = n"
    by simp
  from frame have old: "\<forall>r < neo_count p. neos_of (heap p') r = neos_of (heap p) r"
    by simp
  have "[neo_count p ..< neo_count p + length (elem # rows)]
          = neo_count p # [Suc (neo_count p) ..< neo_count p + length (elem # rows)]"
    by (rule upt_conv_Cons) simp
  moreover have "Suc (neo_count p) + length rows = neo_count p + length (elem # rows)"
    by simp
  ultimately
  have range: "neo_count p # new = [neo_count p ..< neo_count p + length (elem # rows)]"
    using new by (simp only:)
  show ?case
  proof (intro exI conjI)
    show "neos = acc @ (neo_count p # new)"
      using neos by simp
    show "neo_count p # new = [neo_count p ..< neo_count p + length (elem # rows)]"
      by (rule range)
    show "neo_count p' = neo_count p + length (elem # rows)"
      using count by simp
    show "\<forall>r < neo_count p. neos_of (heap p') r = neos_of (heap p) r"
      by (rule old)
    show "map (\<lambda>r. name (neos_of (heap p') r)) (neo_count p # new)
         = map (\<lambda>elem. case elem ''name'' of
                         None \<Rightarrow> PNone
                       | Some t \<Rightarrow> if t = [] then PNone else PStr t) (elem # rows)"
      using names here neo_of_row_name_exact [OF row] by simp
  qed
qed

lemma load_neos_names:
  "load_neos X p rows = Inr (neos, p') \<Longrightarrow>
   map (\<lambda>r. name (neos_of (heap p') r)) neos
     = map (\<lambda>elem. case elem ''name'' of
                     None \<Rightarrow> PNone
                   | Some t \<Rightarrow> if t = [] then PNone else PStr t) rows"
  using load_neos_loop_exact [of X p "[]" rows neos p'] by (auto simp: load_neos_def)

text \<open>
  C9, as amended. The constructor stores the name it is given, unchanged (\<open>None\<close> when
  the input has none). An object constructed with \<open>name=None\<close> and \<open>diameter=None\<close> has
  the name \<open>None\<close>, the diameter not-a-number and a \<open>fullname\<close> that is its designation
  alone. The loader normalizes before it constructs: the objects \<open>load_neos\<close> returns
  have, row by row, the name \<open>None\<close> where the row's name is missing or empty and the
  row's name text otherwise, so none of them has the empty string as name.
\<close>

theorem name_kept_as_given:
  "name (NearEarthObject_init X info) = dict_get info ''name''
   \<and> (dict_get info ''name'' = PNone \<and> dict_get info ''diameter'' = PNone \<longrightarrow>
        name (NearEarthObject_init X info) = PNone
        \<and> diameter (NearEarthObject_init X info) = NaN
        \<and> fullname X (NearEarthObject_init X info) = designation (NearEarthObject_init X info))
   \<and> (load_neos X p rows = Inr (neos, p') \<longrightarrow>
        map (\<lambda>r. name (neos_of (heap p') r)) neos
          = map (\<lambda>elem. case elem ''name'' of
                          None \<Rightarrow> PNone
                        | Some t \<Rightarrow> if t = [] then PNone else PStr t) rows
        \<and> (\<forall>r\<in>set neos. name (neos_of (heap p') r) \<noteq> PStr ''''))"
proof (intro conjI impI)
  show "name (NearEarthObject_init X info) = dict_get info ''name''"
    by (simp add: NearEarthObject_init_def)
next
  assume "dict_get info ''name'' = PNone \<and> dict_get info ''diameter'' = PNone"
  then show "name (NearEarthObject_init X info) = PNone"
    and "diameter (NearEarthObject_init X info) = NaN"
    and "fullname X (NearEarthObject_init X info) = designation (NearEarthObject_init X info)"
    by (simp_all add: NearEarthObject_init_def fullname_def)
next
  assume loaded: "load_neos X p rows = Inr (neos, p')"
  then show "map (\<lambda>r. name (neos_of (heap p') r)) neos
          = map (\<lambda>elem. case elem ''name'' of
                          None \<Rightarrow> PNone
                        | Some t \<Rightarrow> if t = [] then PNone else PStr t) rows"
    by (rule load_neos_names)
  from loaded show "\<forall>r\<in>set neos. name (neos_of (heap p') r) \<noteq> PStr ''''"
    using load_neos_loop_names [of X p "[]" rows neos p'] by (simp add: load_neos_def)
qed

theorem name_kept_as_given_witness:
  "name (NearEarthObject_init sample_externals [''designation'' \<mapsto> PStr ''433'']) = PNone
   \<and> diameter (NearEarthObject_init sample_externals [''designation'' \<mapsto> PStr ''433'']) = NaN
   \<and> fullname sample_externals (NearEarthObject_init sample_externals [''designation'' \<mapsto> PStr ''433''])
        = ''433''
   \<and> map (\<lambda>r. name (neos_of (heap (snd (projr
            (load_neos sample_externals initial_program unnamed_neo_rows)))) r))
        (fst (projr (load_neos sample_externals initial_program unnamed_neo_rows)))
        = [PNone]"
proof -
  let ?info = "[''designation'' \<mapsto> PStr ''433'']"
  let ?p' = "initial_program\<lparr>heap := (heap initial_program)\<lparr>neos_of := (neos_of (heap initial_program))
            (0 := \<lparr>designation = ''2020 AB'', name = PNone, diameter = NaN,
                   hazardous = PBool False, approaches = []\<rparr>)\<rparr>,
          neo_count := Suc 0, pdes_dict := [''2020 AB'' \<mapsto> 0]\<rparr>"
  note kept = name_kept_as_given [of sample_externals ?info initial_program unnamed_neo_rows "[0]" ?p']
  have absent: "dict_get ?info ''name'' = PNone \<and> dict_get ?info ''diameter'' = PNone"
    by (simp add: dict_get_def)
  have desig: "designation (NearEarthObject_init sample_externals ?info) = ''433''"
    by (simp add: NearEarthObject_init_def dict_get_def)
  have rows: "map (\<lambda>elem. case elem ''name'' of
                          None \<Rightarrow> PNone
                        | Some t \<Rightarrow> if t = [] then PNone else PStr t) unnamed_neo_rows = [PNone]"
    by (simp add: unnamed_neo_rows_def)
  from kept unnamed_load have "map (\<lambda>r. name (neos_of (heap ?p') r)) [0]
          = map (\<lambda>elem. case elem ''name'' of
                          None \<Rightarrow> PNone
                        | Some t \<Rightarrow> if t = [] then PNone else PStr t) unnamed_neo_rows"
    by blast
  then have loaded: "map (\<lambda>r. name (neos_of (heap ?p') r)) [0] = [PNone]"
    unfolding rows .
  from kept absent desig have built:
    "name (NearEarthObject_init sample_externals ?info) = PNone"
    "diameter (NearEarthObject_init sample_externals ?info) = NaN"
    "fullname sample_externals (NearEarthObject_init sample_externals ?info) = ''433''"
    by simp_all
  from built loaded show ?thesis
    unfolding unnamed_load by simp
qed

theorem name_kept_as_given_counterexample:
  "name (NearEarthObject_init sample_externals [''designation'' \<mapsto> PStr ''433'', ''name'' \<mapsto> PStr ''''])
     = PStr ''''"
  by (simp add: NearEarthObject_init_def dict_get_def)

section \<open>Date filters\<close>

text \<open>
  C10. A timestamp that \<open>cd_to_datetime\<close> cannot read leaves the \<open>time\<close> of the
  constructed close approach \<open>None\<close>. On a close approach whose \<open>time\<close> is \<open>None\<close>, every
  date filter, whatever its comparator and reference value, raises \<open>AttributeError\<close>
  rather than returning a boolean; on one whose \<open>time\<close> is set, a date filter compared
  against a date does not raise it.
\<close>

theorem date_filter_needs_time:
  "(cd_to_datetime X (dict_get data ''time'') = Inl e \<longrightarrow> time (CloseApproach_init X data) = None)
   \<and> (time (cas_of s a) = None \<longrightarrow>
        call s (Filter DateFilter op v) a = Inl (AttributeError ''NoneType'' ''date''))
   \<and> (time (cas_of s a) = Some t \<longrightarrow>
        call s (Filter DateFilter op (PDate d)) a \<noteq> Inl (AttributeError ''NoneType'' ''date''))"
  by (cases op) (simp_all add: CloseApproach_init_def call_def py_le_def)

theorem date_filter_needs_time_witness:
  "cd_to_datetime sample_externals (dict_get [''time'' \<mapsto> PStr ''unknown''] ''time'') = Inl ValueError
   \<and> time (CloseApproach_init sample_externals [''time'' \<mapsto> PStr ''unknown'']) = None
   \<and> time (cas_of untimed_store 0) = None
   \<and> call untimed_store (Filter DateFilter operator_eq (PDate (Date 2029 4 13))) 0
        = Inl (AttributeError ''NoneType'' ''date'')
   \<and> time (cas_of untimed_store 1) = Some (Datetime (Date 2029 4 13) 21 46)
   \<and> call untimed_store (Filter DateFilter operator_eq (PDate (Date 2029 4 13))) 1
        \<noteq> Inl (AttributeError ''NoneType'' ''date'')"
proof -
  have unread: "cd_to_datetime sample_externals (dict_get [''time'' \<mapsto> PStr ''unknown''] ''time'')
      = Inl ValueError"
    by (simp add: sample_externals_def dict_get_def)
  have t0: "time (cas_of untimed_store 0) = None"
    by (simp add: untimed_store_def create_ca_def CloseApproach_init_def dict_get_def
        sample_externals_def)
  have t1: "time (cas_of untimed_store 1) = Some (Datetime (Date 2029 4 13) 21 46)"
    by (simp add: untimed_store_def sample_cas_def)
  from date_filter_needs_time [of sample_externals "[''time'' \<mapsto> PStr ''unknown'']" ValueError
      untimed_store 0 operator_eq "PDate (Date 2029 4 13)"] unread t0
  have a: "time (CloseApproach_init sample_externals [''time'' \<mapsto> PStr ''unknown'']) = None"
    and b: "call untimed_store (Filter DateFilter operator_eq (PDate (Date 2029 4 13))) 0
        = Inl (AttributeError ''NoneType'' ''date'')"
    by simp_all
  from date_filter_needs_time [of sample_externals "[''time'' \<mapsto> PStr ''unknown'']" ValueError
      untimed_store 1 operator_eq _ "Datetime (Date 2029 4 13) 21 46" "Date 2029 4 13"] t1
  have c: "call untimed_store (Filter DateFilter operator_eq (PDate (Date 2029 4 13))) 1
        \<noteq> Inl (AttributeError ''NoneType'' ''date'')"
    by simp
  from unread a t0 b t1 c show ?thesis
    by (intro conjI)
qed

end
